theory Spec2Isabelle
  imports Main
begin

section \<open>Values, targets and the transport binding\<close>

text \<open>
  The engine under study is the class \<open>AbstractJSONRPC\<close> of \<open>src/AbstractJSONRPC.ts\<close>.
  JavaScript values that travel as \<open>params\<close>, \<open>result\<close> or error \<open>data\<close> are
  abstracted to the few shapes the control flow distinguishes. \<open>JCircular\<close> stands for
  any value on which \<open>JSON.stringify\<close> throws (a circular structure, a BigInt); \<open>JNum\<close>
  carries a number that is an integer, so only integers that a double represents occur.
\<close>

datatype jsval = JUndefined | JNull | JNum int | JStr string | JCircular

text \<open>A JavaScript \<open>number\<close>, as far as the timeout argument needs it.\<close>

datatype number = Finite int | Infinity | NegInfinity | NaN

text \<open>
  Modelled from the spec: the declaration of \<open>JSONRPCTarget\<close> (in \<open>./type\<close>) is not at
  hand. The spec has a target as an opaque destination identifier that includes a
  reserved sentinel; the doc comment of \<open>send\<close> lists a webContents id (a number) and a
  BrowserWindow or WebContents object. An optional target (\<open>target?: JSONRPCTarget\<close>)
  is a \<open>target option\<close>, \<open>None\<close> being \<open>undefined\<close> or \<open>null\<close>.
\<close>

datatype target = WebContentsId int | Handle nat | Named string

text \<open>JavaScript truthiness of a target that is not \<open>null\<close> (the test \<open>target && ...\<close>).\<close>

fun truthy :: "target \<Rightarrow> bool" where
  "truthy (WebContentsId n) = (n \<noteq> 0)"
| "truthy (Handle h) = True"
| "truthy (Named s) = (s \<noteq> [])"

text \<open>
  A \<open>Sendable\<close> carries an \<open>id\<close> and a \<open>send\<close> method. Calls of \<open>send\<close> are recorded
  in the engine's \<open>wire\<close> log below, so the model keeps the identity only.
\<close>

datatype sendable = Sendable (sid: nat)

text \<open>
  \<open>getSendable\<close> is abstract in the class: a subclass resolves a target, may return
  \<open>undefined\<close> and may throw.
\<close>

datatype resolution = Resolved sendable | Unresolved | Throws

type_synonym resolver = "target \<Rightarrow> resolution"

text \<open>\<open>getSender\<close>: a throw of \<open>getSendable\<close> is caught and becomes \<open>undefined\<close>.\<close>

definition getSender :: "resolver \<Rightarrow> target \<Rightarrow> sendable option" where
  "getSender resolve t =
     (case resolve t of Resolved s \<Rightarrow> Some s | Unresolved \<Rightarrow> None | Throws \<Rightarrow> None)"

definition isTargetEqual :: "resolver \<Rightarrow> target option \<Rightarrow> target option \<Rightarrow> bool" where
  "isTargetEqual resolve a b =
     (case a of
        None \<Rightarrow> (case b of None \<Rightarrow> True | Some y \<Rightarrow> False)
      | Some x \<Rightarrow>
          (case b of
             None \<Rightarrow> False
           | Some y \<Rightarrow>
               (case getSender resolve x of
                  None \<Rightarrow> False
                | Some sendableA \<Rightarrow>
                    (case getSender resolve y of
                       None \<Rightarrow> False
                     | Some sendableB \<Rightarrow> sid sendableA = sid sendableB))))"

definition isSenderMatchTarget :: "resolver \<Rightarrow> sendable \<Rightarrow> target option \<Rightarrow> bool" where
  "isSenderMatchTarget resolve a tgt =
     (case tgt of
        None \<Rightarrow> True
      | Some t \<Rightarrow> (case getSender resolve t of None \<Rightarrow> False | Some t' \<Rightarrow> sid t' = sid a))"

section \<open>Envelopes, payloads and the codec\<close>

text \<open>
  The object literal built in \<open>send\<close>: \<open>{jsonrpc, method, id, params}\<close> (the fields
  \<open>method\<close> and \<open>id\<close> are \<open>rpc_method\<close> and \<open>req_id\<close> here). The \<open>id\<close> is
  absent (\<open>None\<close>) in an event.
\<close>

record envelope =
  jsonrpc :: string
  rpc_method :: string
  req_id :: "string option"
  params :: jsval

text \<open>
  Modelled from the spec: the declaration of \<open>JSONRPCErrorCode\<close> (in \<open>./type\<close>) is not
  at hand. The spec enumerates the four codes below, which are the ones the source uses,
  and lets application-defined codes pass through.
\<close>

datatype code = NotFound | Timeout | TargetReleased | UnKnown | App int

record wire_error =
  w_code :: code
  w_message :: string
  w_data :: jsval

datatype response = Success string jsval | Failure string wire_error

fun res_id :: "response \<Rightarrow> string" where
  "res_id (Success i v) = i"
| "res_id (Failure i e) = i"

text \<open>What \<open>handleRPCRequest\<close> accepts: \<open>JSONRPCRequest | JSONRPCRequest[]\<close>.\<close>

datatype request = One envelope | Many "envelope list"

text \<open>What \<open>beforeSend\<close> is given (\<open>payload: any\<close>): a request, a batch or a response.\<close>

datatype payload = Req request | Res response

text \<open>
  Transport text is either the JSON rendering of a value or text that \<open>JSON.parse\<close>
  rejects.
\<close>

datatype 'a wiretext = Json 'a | Garbage string

text \<open>
  What is thrown: by \<open>JSON.parse\<close>, by the language (calling or iterating what is not
  callable or iterable, \<open>JSON.stringify\<close> of a circular value), by \<open>registerHandler\<close>, or
  by application code in a callback.
\<close>

datatype exn = SyntaxError | TypeError | AlreadyRegistered string "target option" | Thrown

fun serializable :: "jsval \<Rightarrow> bool" where
  "serializable JCircular = False"
| "serializable v = True"

fun serializable_payload :: "payload \<Rightarrow> bool" where
  "serializable_payload (Req (One e)) = serializable (params e)"
| "serializable_payload (Req (Many es)) = list_all (\<lambda>e. serializable (params e)) es"
| "serializable_payload (Res (Success i v)) = serializable v"
| "serializable_payload (Res (Failure i e)) = serializable (w_data e)"

text \<open>\<open>JSON.stringify\<close> and \<open>JSON.parse\<close>, with their throws as values.\<close>

definition stringify :: "payload \<Rightarrow> exn + payload wiretext" where
  "stringify p = (if serializable_payload p then Inr (Json p) else Inl TypeError)"

fun parse :: "'a wiretext \<Rightarrow> exn + 'a" where
  "parse (Json v) = Inr v"
| "parse (Garbage s) = Inl SyntaxError"

text \<open>
  \<open>RPC_SEND_CHANNEL\<close> and \<open>RPC_RECEIVE_CHANNEL\<close> of \<open>./constants\<close>, whose string values
  are not at hand; \<open>DEFAULT_TIMEOUT\<close> of the same file is a parameter of the functions
  that read it.
\<close>

datatype channel = RPC_SEND_CHANNEL | RPC_RECEIVE_CHANNEL

text \<open>
  Modelled from the spec: \<open>isEvent\<close> of \<open>./utils\<close> is not at hand; the spec's data model
  has an Event as the envelope with no id.
\<close>

definition isEvent :: "envelope \<Rightarrow> bool" where
  "isEvent p = (req_id p = None)"

section \<open>Errors handed to callbacks\<close>

text \<open>
  The message of a \<open>JSONRPCError\<close> is kept structured: the source builds it with template
  literals from the parts named here.
\<close>

datatype message =
    ReleasedTarget target
  | CallTimedOut string
  | Recovered string jsval string

record rpc_error =
  e_code :: code
  e_message :: message
  e_data :: jsval
  e_methodName :: "string option"
  e_args :: "jsval option"

text \<open>The \<open>(result, error)\<close> pair a \<open>ResponderCallback\<close> receives.\<close>

datatype outcome = Result jsval | Error rpc_error

text \<open>The \<open>Responder\<close> stored under a request id; its callback is the closure of one call.\<close>

record responder_entry =
  r_callback :: nat
  r_name :: string
  r_args :: jsval

text \<open>
  \<open>JSONRPCError.recoverFromResponse\<close>. The message embeds \<open>JSON.stringify(responder.args)\<close>,
  which throws on arguments that do not serialize. The stack is not modelled.
\<close>

definition recoverFromResponse :: "wire_error \<Rightarrow> responder_entry \<Rightarrow> exn + rpc_error" where
  "recoverFromResponse e r =
     (if serializable (r_args r)
      then Inr \<lparr>e_code = w_code e,
                e_message = Recovered (r_name r) (r_args r) (w_message e),
                e_data = w_data e,
                e_methodName = Some (r_name r),
                e_args = Some (r_args r)\<rparr>
      else Inl TypeError)"

section \<open>The engine\<close>

type_synonym callback = nat

text \<open>An entry of \<open>handlers[method]\<close> or \<open>listeners[method]\<close>: \<open>{target?, callback}\<close>.\<close>

record entry =
  target :: "target option"
  callback :: callback

text \<open>
  The variables one run of \<open>send\<close> closes over when it is given a callback: the request
  id and method, the flag \<open>resolved\<close> and the \<open>timer\<close> handle.
\<close>

record call =
  c_id :: string
  c_method :: string
  c_resolved :: bool
  c_timer :: "nat option"

text \<open>A handler that was invoked and whose promise has not settled yet.\<close>

record job =
  j_sender :: sendable
  j_id :: string
  j_callback :: callback
  j_params :: jsval

datatype log = NoResponder string | SerializeFailed exn

text \<open>
  The first six fields are the fields of the class. The rest is the environment the class
  acts on, made explicit: the closures created by \<open>send\<close> (\<open>calls\<close>, numbered by
  \<open>ncalls\<close>), the timeout timers that are armed (each with its delay), the reading of
  \<open>Date.now()\<close>, the number of scheduled \<open>flushQueue\<close> runs, the handler promises in
  flight, and four logs: every \<open>sender.send(channel, text)\<close>, every console warning or
  error, every invocation of a call's callback, and every invocation of a listener.
  A dictionary field holds the own properties of the object.
\<close>

record engine =
  uid :: nat
  queueTick :: nat
  scheduleQueue :: "(nat \<times> (channel \<times> sendable \<times> envelope) list) list"
  responder :: "string \<Rightarrow> responder_entry option"
  handlers :: "string \<Rightarrow> entry list option"
  listeners :: "string \<Rightarrow> entry list option"
  calls :: "nat \<Rightarrow> call option"
  ncalls :: nat
  armed :: "nat \<Rightarrow> number option"
  clock :: nat
  flushTimers :: nat
  jobs :: "job list"
  wire :: "(nat \<times> channel \<times> payload wiretext) list"
  console :: "log list"
  settled :: "(nat \<times> outcome) list"
  delivered :: "(callback \<times> jsval \<times> nat) list"

definition init :: engine where
  "init = \<lparr>uid = 0, queueTick = 0, scheduleQueue = [], responder = Map.empty,
           handlers = Map.empty, listeners = Map.empty, calls = Map.empty, ncalls = 0,
           armed = Map.empty, clock = 0, flushTimers = 0, jobs = [], wire = [], console = [],
           settled = [], delivered = []\<rparr>"

section \<open>Plain objects as dictionaries\<close>

text \<open>
  \<open>responder\<close>, \<open>handlers\<close> and \<open>listeners\<close> are initialised with \<open>{}\<close>, so reading a key
  that is not an own property goes to \<open>Object.prototype\<close> and finds its members. Each of
  them is a function (for \<open>__proto__\<close> the prototype object itself): truthy, not \<open>null\<close>,
  not iterable, and with no \<open>callback\<close>, \<open>push\<close>, \<open>some\<close>, \<open>findIndex\<close> or \<open>slice\<close> to call.
  The engine never assigns under such a key: every assignment is behind a test that the
  inherited value fails, and the ids of \<open>getId\<close> are digit strings.
\<close>

definition inheritedKeys :: "string list" where
  "inheritedKeys =
     [''constructor'', ''toString'', ''toLocaleString'', ''valueOf'', ''hasOwnProperty'',
      ''isPrototypeOf'', ''propertyIsEnumerable'', ''__proto__'', ''__defineGetter__'',
      ''__defineSetter__'', ''__lookupGetter__'', ''__lookupSetter__'']"

datatype 'a slot = Own 'a | Inherited | Absent

definition lookup :: "(string \<Rightarrow> 'a option) \<Rightarrow> string \<Rightarrow> 'a slot" where
  "lookup obj k =
     (case obj k of
        Some v \<Rightarrow> Own v
      | None \<Rightarrow> if k \<in> set inheritedKeys then Inherited else Absent)"

section \<open>Request ids\<close>

text \<open>
  The template literal renders a non-negative integer below \<open>10^21\<close> in decimal, with no
  sign and no leading zero.
\<close>

fun digits :: "nat \<Rightarrow> string" where
  "digits n =
     (if n < 10 then [char_of (48 + n)]
      else digits (n div 10) @ [char_of (48 + n mod 10)])"

declare digits.simps [simp del]

definition MAX_SAFE_INTEGER :: nat where
  "MAX_SAFE_INTEGER = 9007199254740991"

text \<open>
  \<open>getId\<close>: the counter is advanced modulo \<open>Number.MAX_SAFE_INTEGER\<close> and its new value
  is concatenated with the clock reading.
\<close>

definition getId :: "engine \<Rightarrow> string \<times> engine" where
  "getId s =
     (let u = (uid s + 1) mod MAX_SAFE_INTEGER
      in (digits u @ digits (clock s), s\<lparr>uid := u\<rparr>))"

section \<open>The send path\<close>

text \<open>
  \<open>beforeSend\<close>: \<open>JSON.stringify\<close> and \<open>sender.send\<close> run inside one \<open>try\<close>; whatever is
  thrown there is logged with \<open>console.error\<close> and goes no further. The \<open>wire\<close> log
  records the calls of \<open>sender.send\<close>.
\<close>

definition beforeSend :: "sendable \<Rightarrow> channel \<Rightarrow> payload \<Rightarrow> engine \<Rightarrow> engine" where
  "beforeSend sender chan p s =
     (case stringify p of
        Inr t \<Rightarrow> s\<lparr>wire := wire s @ [(sid sender, chan, t)]\<rparr>
      | Inl err \<Rightarrow> s\<lparr>console := console s @ [SerializeFailed err]\<rparr>)"

text \<open>
  \<open>scheduleQueue\<close> is an object keyed by the sendable's numeric id. \<open>for (const id in
  queue)\<close> visits the keys that are array indices (below \<open>2^32 - 1\<close>) in ascending
  order and after them the other keys in the order of their creation, so the association
  list is kept in that order; \<open>enqueue\<close> is \<open>queue[id] = queue[id] || [];
  queue[id].push(entry)\<close>.
\<close>

definition isIndex :: "nat \<Rightarrow> bool" where
  "isIndex k = (k < 4294967295)"

fun enqueue ::
  "nat \<Rightarrow> 'a \<Rightarrow> (nat \<times> 'a list) list \<Rightarrow> (nat \<times> 'a list) list" where
  "enqueue k x [] = [(k, [x])]"
| "enqueue k x ((k', xs) # q) =
     (if k = k' then (k', xs @ [x]) # q
      else if isIndex k \<and> (if isIndex k' then k < k' else True) then (k, [x]) # (k', xs) # q
      else (k', xs) # enqueue k x q)"

definition scheduleRequest :: "channel \<Rightarrow> sendable \<Rightarrow> envelope \<Rightarrow> engine \<Rightarrow> engine" where
  "scheduleRequest chan sendable p s =
     (if isEvent p
      then (let s' = s\<lparr>scheduleQueue := enqueue (sid sendable) (chan, sendable, p) (scheduleQueue s)\<rparr>
            in if queueTick s = 0
               then s'\<lparr>queueTick := queueTick s + 1, flushTimers := flushTimers s + 1\<rparr>
               else s'\<lparr>queueTick := queueTick s + 1\<rparr>)
      else beforeSend sendable chan (Req (One p)) s)"

text \<open>
  The loop of \<open>flushQueue\<close>. Reading \<open>queue[id][0]\<close> of an empty array and destructuring
  it would throw a TypeError and end the loop; the first component reports it.
\<close>

fun flushLoop ::
  "(nat \<times> (channel \<times> sendable \<times> envelope) list) list \<Rightarrow> engine \<Rightarrow> exn option \<times> engine" where
  "flushLoop [] s = (None, s)"
| "flushLoop ((k, []) # q) s = (Some TypeError, s)"
| "flushLoop ((k, (chan, sendable, p) # rest) # q) s =
     flushLoop q
       (if length ((chan, sendable, p) # rest) > 1
        then beforeSend sendable chan
               (Req (Many (map (\<lambda>i. snd (snd i)) ((chan, sendable, p) # rest)))) s
        else beforeSend sendable chan (Req (One p)) s)"


section \<open>Calls: timeout and settlement\<close>

text \<open>JavaScript falsiness of a number, for \<open>timeout || DEFAULT_TIMEOUT\<close>.\<close>

fun falsy :: "number \<Rightarrow> bool" where
  "falsy (Finite n) = (n = 0)"
| "falsy NaN = True"
| "falsy Infinity = False"
| "falsy NegInfinity = False"

definition orDefault :: "number option \<Rightarrow> number \<Rightarrow> number" where
  "orDefault timeout DEFAULT_TIMEOUT =
     (case timeout of
        None \<Rightarrow> DEFAULT_TIMEOUT
      | Some t \<Rightarrow> if falsy t then DEFAULT_TIMEOUT else t)"

text \<open>\<open>timeoutEnabled = _timeout > 0 && _timeout !== Infinity\<close>.\<close>

fun timeoutEnabled :: "number \<Rightarrow> bool" where
  "timeoutEnabled (Finite n) = (0 < n)"
| "timeoutEnabled Infinity = False"
| "timeoutEnabled NegInfinity = False"
| "timeoutEnabled NaN = False"

text \<open>
  The closure given to \<open>setTimeout\<close> by call number \<open>k\<close>. A closure that does not exist
  cannot run; that branch is there for totality.
\<close>

definition timerCallback :: "nat \<Rightarrow> engine \<Rightarrow> engine" where
  "timerCallback k s =
     (case calls s k of
        None \<Rightarrow> s
      | Some c \<Rightarrow>
          if c_resolved c then s
          else s\<lparr>calls := (calls s)(k \<mapsto> c\<lparr>c_resolved := True\<rparr>),
                 settled := settled s @
                   [(k, Error \<lparr>e_code = Timeout, e_message = CallTimedOut (c_method c),
                               e_data = JUndefined, e_methodName = None, e_args = None\<rparr>)],
                 responder := (responder s)(c_id c := None)\<rparr>)"

text \<open>The closure stored as \<open>this.responder[id].callback\<close> by call number \<open>k\<close>.\<close>

definition responderCallback :: "nat \<Rightarrow> outcome \<Rightarrow> engine \<Rightarrow> engine" where
  "responderCallback k out s =
     (case calls s k of
        None \<Rightarrow> s
      | Some c \<Rightarrow>
          if c_resolved c then s
          else s\<lparr>calls := (calls s)(k \<mapsto> c\<lparr>c_resolved := True\<rparr>),
                 armed := (case c_timer c of None \<Rightarrow> armed s | Some t \<Rightarrow> (armed s)(t := None)),
                 settled := settled s @ [(k, out)]\<rparr>)"

text \<open>A timer that is armed fires: it is disarmed and its closure runs.\<close>

definition timerFires :: "nat \<Rightarrow> engine \<Rightarrow> engine" where
  "timerFires k s =
     (case armed s k of
        None \<Rightarrow> s
      | Some delay \<Rightarrow> timerCallback k (s\<lparr>armed := (armed s)(k := None)\<rparr>))"

text \<open>
  The block \<open>if (!isEvent) { ... }\<close> of \<open>send\<close>: a new closure, its timer when the timeout
  is enabled, and the responder entry under the id.
\<close>

definition track :: "number \<Rightarrow> string \<Rightarrow> string \<Rightarrow> jsval \<Rightarrow> number option \<Rightarrow> engine \<Rightarrow> engine" where
  "track DEFAULT_TIMEOUT i meth ps timeout s =
     (let k = ncalls s;
          t = orDefault timeout DEFAULT_TIMEOUT
      in s\<lparr>calls := (calls s)(k \<mapsto>
               \<lparr>c_id = i, c_method = meth, c_resolved = False,
                c_timer = (if timeoutEnabled t then Some k else None)\<rparr>),
             ncalls := k + 1,
             armed := (if timeoutEnabled t then (armed s)(k \<mapsto> t) else armed s),
             responder := (responder s)(i \<mapsto> \<lparr>r_callback = k, r_name = meth, r_args = ps\<rparr>)\<rparr>)"

text \<open>The callback of a call to a released target is invoked at once.\<close>

definition rejectReleased :: "target \<Rightarrow> engine \<Rightarrow> engine" where
  "rejectReleased tgt s =
     s\<lparr>ncalls := ncalls s + 1,
       settled := settled s @
         [(ncalls s, Error \<lparr>e_code = TargetReleased, e_message = ReleasedTarget tgt,
                            e_data = JUndefined, e_methodName = None, e_args = None\<rparr>)]\<rparr>"

text \<open>
  \<open>send\<close>. With no callback the message is an event and has no id; with a callback the
  id is taken from \<open>getId\<close> before the target is resolved. The development-only console
  warning is left out. The log names a call by its number, not by its callback.
\<close>

definition send ::
  "resolver \<Rightarrow> number \<Rightarrow> target \<Rightarrow> string \<Rightarrow> jsval \<Rightarrow> callback option \<Rightarrow> number option \<Rightarrow>
     engine \<Rightarrow> bool \<times> engine" where
  "send resolve DEFAULT_TIMEOUT tgt meth ps cb timeout s =
     (case cb of
        None \<Rightarrow>
          (let p = \<lparr>jsonrpc = ''2.0'', rpc_method = meth, req_id = None, params = ps\<rparr>
           in case getSender resolve tgt of
                None \<Rightarrow> (False, s)
              | Some sendable \<Rightarrow> (True, scheduleRequest RPC_SEND_CHANNEL sendable p s))
      | Some f \<Rightarrow>
          (case getId s of
             (i, s1) \<Rightarrow>
               (let p = \<lparr>jsonrpc = ''2.0'', rpc_method = meth, req_id = Some i, params = ps\<rparr>
                in case getSender resolve tgt of
                     None \<Rightarrow> (False, rejectReleased tgt s1)
                   | Some sendable \<Rightarrow>
                       (True, scheduleRequest RPC_SEND_CHANNEL sendable p
                                (track DEFAULT_TIMEOUT i meth ps timeout s1)))))"

definition emit :: "resolver \<Rightarrow> number \<Rightarrow> target \<Rightarrow> string \<Rightarrow> jsval \<Rightarrow> engine \<Rightarrow> engine" where
  "emit resolve DEFAULT_TIMEOUT tgt meth ps s =
     snd (send resolve DEFAULT_TIMEOUT tgt meth ps None None s)"

text \<open>
  \<open>callHandler\<close>: the callback it hands to \<open>send\<close> settles the promise and does nothing
  to the engine.
\<close>

definition callHandler ::
  "resolver \<Rightarrow> number \<Rightarrow> target \<Rightarrow> string \<Rightarrow> jsval \<Rightarrow> number option \<Rightarrow> engine \<Rightarrow> engine" where
  "callHandler resolve DEFAULT_TIMEOUT tgt meth ps timeout s =
     snd (send resolve DEFAULT_TIMEOUT tgt meth ps (Some 0) timeout s)"

section \<open>The receive path for responses\<close>

definition beforeReceive :: "'a wiretext \<Rightarrow> exn + 'a" where
  "beforeReceive p = parse p"

text \<open>
  \<open>handleRPCResponse\<close>. \<open>Inl\<close> is an exception leaving the function; it is thrown before
  anything is assigned, so the engine is then as it was. For an id that names a member
  of \<open>Object.prototype\<close> the value read is not \<open>null\<close> and its \<open>callback\<close> is undefined, so
  the call of it throws.
\<close>

definition handleRPCResponse :: "response \<Rightarrow> engine \<Rightarrow> exn + engine" where
  "handleRPCResponse res s =
     (case lookup (responder s) (res_id res) of
        Absent \<Rightarrow> Inr (s\<lparr>console := console s @ [NoResponder (res_id res)]\<rparr>)
      | Inherited \<Rightarrow> Inl TypeError
      | Own r \<Rightarrow>
          (case res of
             Failure i e \<Rightarrow>
               (case recoverFromResponse e r of
                  Inl x \<Rightarrow> Inl x
                | Inr err \<Rightarrow>
                    (let s' = responderCallback (r_callback r) (Error err) s
                     in Inr (s'\<lparr>responder := (responder s')(i := None)\<rparr>)))
           | Success i v \<Rightarrow>
               (let s' = responderCallback (r_callback r) (Result v) s
                in Inr (s'\<lparr>responder := (responder s')(i := None)\<rparr>))))"

definition handleResponse :: "response wiretext \<Rightarrow> engine \<Rightarrow> exn + engine" where
  "handleResponse res s =
     (case beforeReceive res of Inl x \<Rightarrow> Inl x | Inr r \<Rightarrow> handleRPCResponse r s)"

section \<open>Listener and handler registries\<close>

text \<open>
  \<open>on\<close>: the test \<open>if (this.listeners[method])\<close> holds for a list and for an inherited
  value; \<open>push\<close> of an inherited value is not a function.
\<close>

definition on :: "string \<Rightarrow> callback \<Rightarrow> target option \<Rightarrow> engine \<Rightarrow> exn + engine" where
  "on meth cb tgt s =
     (case lookup (listeners s) meth of
        Own l \<Rightarrow> Inr (s\<lparr>listeners := (listeners s)(meth \<mapsto> l @ [\<lparr>target = tgt, callback = cb\<rparr>])\<rparr>)
      | Inherited \<Rightarrow> Inl TypeError
      | Absent \<Rightarrow> Inr (s\<lparr>listeners := (listeners s)(meth \<mapsto> [\<lparr>target = tgt, callback = cb\<rparr>])\<rparr>))"

text \<open>\<open>Array.prototype.findIndex\<close> (\<open>None\<close> for \<open>-1\<close>) and \<open>splice(idx, 1)\<close>.\<close>

fun findIndex :: "('a \<Rightarrow> bool) \<Rightarrow> 'a list \<Rightarrow> nat option" where
  "findIndex p [] = None"
| "findIndex p (x # xs) = (if p x then Some 0 else map_option Suc (findIndex p xs))"

definition splice1 :: "nat \<Rightarrow> 'a list \<Rightarrow> 'a list" where
  "splice1 idx xs = take idx xs @ drop (Suc idx) xs"

text \<open>\<open>off\<close>: for an inherited value the call of \<open>findIndex\<close> throws.\<close>

definition off ::
  "resolver \<Rightarrow> string \<Rightarrow> callback \<Rightarrow> target option \<Rightarrow> engine \<Rightarrow> exn + bool \<times> engine" where
  "off resolve meth cb tgt s =
     (case lookup (listeners s) meth of
        Absent \<Rightarrow> Inr (False, s)
      | Inherited \<Rightarrow> Inl TypeError
      | Own l \<Rightarrow>
          (case findIndex (\<lambda>i. callback i = cb \<and> isTargetEqual resolve (target i) tgt) l of
             None \<Rightarrow> Inr (False, s)
           | Some idx \<Rightarrow> Inr (True, s\<lparr>listeners := (listeners s)(meth \<mapsto> splice1 idx l)\<rparr>)))"

text \<open>
  \<open>removeAllListener\<close>: \<open>for (const method in this.listeners)\<close> visits the own keys only,
  the members of \<open>Object.prototype\<close> not being enumerable.
\<close>

definition removeAllListener :: "resolver \<Rightarrow> target option \<Rightarrow> engine \<Rightarrow> engine" where
  "removeAllListener resolve tgt s =
     (case tgt of
        None \<Rightarrow> s\<lparr>listeners := Map.empty\<rparr>
      | Some t \<Rightarrow>
          s\<lparr>listeners := (\<lambda>meth.
               case listeners s meth of
                 None \<Rightarrow> None
               | Some l \<Rightarrow>
                   (let list = filter (\<lambda>i. \<not> isTargetEqual resolve (Some t) (target i)) l
                    in if length l \<noteq> length list then Some list else Some l))\<rparr>)"

text \<open>
  \<open>registerHandler\<close>: both conflict checks throw before the registry is touched. The
  second check is guarded by the truthiness of the target. For an inherited value
  every path ends in a call of its \<open>some\<close> or its \<open>push\<close>, which throws: the first check
  when the target is \<open>null\<close>, the second when it is truthy, the \<open>push\<close> otherwise.
\<close>

definition registerHandler ::
  "resolver \<Rightarrow> string \<Rightarrow> callback \<Rightarrow> target option \<Rightarrow> engine \<Rightarrow> exn + engine" where
  "registerHandler resolve meth handler tgt s =
     (case lookup (handlers s) meth of
        Inherited \<Rightarrow> Inl TypeError
      | Absent \<Rightarrow>
          Inr (s\<lparr>handlers := (handlers s)(meth \<mapsto> [\<lparr>target = tgt, callback = handler\<rparr>])\<rparr>)
      | Own hs \<Rightarrow>
          if tgt = None \<and> list_ex (\<lambda>i. target i = None) hs
          then Inl (AlreadyRegistered meth None)
          else if (case tgt of None \<Rightarrow> False | Some t \<Rightarrow> truthy t) \<and>
                  list_ex (\<lambda>i. isTargetEqual resolve tgt (target i)) hs
          then Inl (AlreadyRegistered meth tgt)
          else Inr (s\<lparr>handlers := (handlers s)(meth \<mapsto> hs @ [\<lparr>target = tgt, callback = handler\<rparr>])\<rparr>))"

definition unregisterHandler ::
  "resolver \<Rightarrow> string \<Rightarrow> target option \<Rightarrow> engine \<Rightarrow> exn + bool \<times> engine" where
  "unregisterHandler resolve meth tgt s =
     (case lookup (handlers s) meth of
        Absent \<Rightarrow> Inr (False, s)
      | Inherited \<Rightarrow> Inl TypeError
      | Own hs \<Rightarrow>
          (case findIndex (\<lambda>i. isTargetEqual resolve (target i) tgt) hs of
             None \<Rightarrow> Inr (False, s)
           | Some idx \<Rightarrow> Inr (True, s\<lparr>handlers := (handlers s)(meth \<mapsto> splice1 idx hs)\<rparr>)))"

text \<open>
  The loop of \<open>getHandlerFor\<close>, with the variable \<open>handler\<close> as accumulator: a global
  entry is remembered and the scan goes on, a matching scoped entry ends the scan.
\<close>

fun scanHandlers :: "resolver \<Rightarrow> sendable \<Rightarrow> entry list \<Rightarrow> entry option \<Rightarrow> entry option" where
  "scanHandlers resolve sender [] handler = handler"
| "scanHandlers resolve sender (item # rest) handler =
     (if target item = None then scanHandlers resolve sender rest (Some item)
      else if isSenderMatchTarget resolve sender (target item) then Some item
      else scanHandlers resolve sender rest handler)"

text \<open>
  \<open>getHandlerFor\<close>: an inherited value passes the test \<open>== null\<close> and the \<open>for ... of\<close> over
  it throws, since it is not iterable.
\<close>

definition getHandlerFor ::
  "resolver \<Rightarrow> string \<Rightarrow> sendable \<Rightarrow> engine \<Rightarrow> exn + entry option" where
  "getHandlerFor resolve meth sender s =
     (case lookup (handlers s) meth of
        Absent \<Rightarrow> Inr None
      | Inherited \<Rightarrow> Inl TypeError
      | Own hs \<Rightarrow> Inr (scanHandlers resolve sender hs None))"

section \<open>Application callbacks\<close>

text \<open>
  A listener or a handler is application code. It acts on the engine through the public
  methods, so what a callback does when it is invoked with \<open>(params, sender.id)\<close> is
  given as a script: a call of a public method whose exception, if any, leaves the
  callback; such a call inside a \<open>try\<close> of the callback; or a \<open>throw\<close>.
\<close>

datatype api =
    On string callback "target option"
  | Off string callback "target option"
  | RemoveAllListener "target option"
  | Emit target string jsval
  | CallHandler target string jsval "number option"
  | RegisterHandler string callback "target option"
  | UnregisterHandler string "target option"

datatype action = Call api | Guarded api | Throw

type_synonym behaviour = "callback \<Rightarrow> jsval \<Rightarrow> nat \<Rightarrow> action list"

text \<open>A public method called: the exception that leaves it, if any, and the engine after.\<close>

fun invoke :: "resolver \<Rightarrow> number \<Rightarrow> api \<Rightarrow> engine \<Rightarrow> exn option \<times> engine" where
  "invoke resolve D (On meth cb tgt) s =
     (case on meth cb tgt s of Inl x \<Rightarrow> (Some x, s) | Inr s' \<Rightarrow> (None, s'))"
| "invoke resolve D (Off meth cb tgt) s =
     (case off resolve meth cb tgt s of Inl x \<Rightarrow> (Some x, s) | Inr (b, s') \<Rightarrow> (None, s'))"
| "invoke resolve D (RemoveAllListener tgt) s = (None, removeAllListener resolve tgt s)"
| "invoke resolve D (Emit tgt meth ps) s = (None, emit resolve D tgt meth ps s)"
| "invoke resolve D (CallHandler tgt meth ps timeout) s =
     (None, callHandler resolve D tgt meth ps timeout s)"
| "invoke resolve D (RegisterHandler meth cb tgt) s =
     (case registerHandler resolve meth cb tgt s of Inl x \<Rightarrow> (Some x, s) | Inr s' \<Rightarrow> (None, s'))"
| "invoke resolve D (UnregisterHandler meth tgt) s =
     (case unregisterHandler resolve meth tgt s of
        Inl x \<Rightarrow> (Some x, s)
      | Inr (b, s') \<Rightarrow> (None, s'))"

fun runActions :: "resolver \<Rightarrow> number \<Rightarrow> action list \<Rightarrow> engine \<Rightarrow> exn option \<times> engine" where
  "runActions resolve D [] s = (None, s)"
| "runActions resolve D (Throw # rest) s = (Some Thrown, s)"
| "runActions resolve D (Call a # rest) s =
     (case invoke resolve D a s of
        (Some x, s') \<Rightarrow> (Some x, s')
      | (None, s') \<Rightarrow> runActions resolve D rest s')"
| "runActions resolve D (Guarded a # rest) s =
     runActions resolve D rest (snd (invoke resolve D a s))"

definition runCallback ::
  "resolver \<Rightarrow> number \<Rightarrow> behaviour \<Rightarrow> callback \<Rightarrow> jsval \<Rightarrow> nat \<Rightarrow> engine \<Rightarrow>
     exn option \<times> engine" where
  "runCallback resolve D does cb ps sender_id s =
     runActions resolve D (does cb ps sender_id) s"

section \<open>The receive path for requests and events\<close>

text \<open>
  The \<open>forEach\<close> over the copy \<open>this.listeners[method].slice(0)\<close>. The copy is a fresh
  array that nothing else refers to, so it is the list given as argument; the array that
  \<open>on\<close>, \<open>off\<close> and \<open>removeAllListener\<close> change is the one in the engine. Nothing catches
  what a listener throws: it ends the \<open>forEach\<close> with the engine as it then is.
\<close>

fun forEachListener ::
  "resolver \<Rightarrow> number \<Rightarrow> behaviour \<Rightarrow> sendable \<Rightarrow> jsval \<Rightarrow> entry list \<Rightarrow> engine \<Rightarrow>
     exn option \<times> engine" where
  "forEachListener resolve D does sender ps [] s = (None, s)"
| "forEachListener resolve D does sender ps (i # rest) s =
     (if isSenderMatchTarget resolve sender (target i)
      then (case runCallback resolve D does (callback i) ps (sid sender)
                   (s\<lparr>delivered := delivered s @ [(callback i, ps, sid sender)]\<rparr>) of
              (Some x, s') \<Rightarrow> (Some x, s')
            | (None, s') \<Rightarrow> forEachListener resolve D does sender ps rest s')
      else forEachListener resolve D does sender ps rest s)"

text \<open>
  \<open>handleRPCRequest\<close> on one envelope. For an event whose method names a member of
  \<open>Object.prototype\<close> the call of \<open>slice\<close> throws. A handler is called and the continuations
  are attached to the promise it returns; what it throws before returning is not caught.
\<close>

definition handleOne ::
  "resolver \<Rightarrow> number \<Rightarrow> behaviour \<Rightarrow> sendable \<Rightarrow> envelope \<Rightarrow> engine \<Rightarrow> exn option \<times> engine" where
  "handleOne resolve D does sender req s =
     (case req_id req of
        None \<Rightarrow>
          (case lookup (listeners s) (rpc_method req) of
             Absent \<Rightarrow> (None, s)
           | Inherited \<Rightarrow> (Some TypeError, s)
           | Own l \<Rightarrow> forEachListener resolve D does sender (params req) l s)
      | Some i \<Rightarrow>
          (case getHandlerFor resolve (rpc_method req) sender s of
             Inl x \<Rightarrow> (Some x, s)
           | Inr None \<Rightarrow>
               (None,
                beforeSend sender RPC_RECEIVE_CHANNEL
                  (Res (Failure i \<lparr>w_code = NotFound,
                                    w_message = ''method '' @ rpc_method req @ '' not found'',
                                    w_data = JUndefined\<rparr>)) s)
           | Inr (Some handler) \<Rightarrow>
               (case runCallback resolve D does (callback handler) (params req) (sid sender) s of
                  (Some x, s') \<Rightarrow> (Some x, s')
                | (None, s') \<Rightarrow>
                    (None,
                     s'\<lparr>jobs := jobs s' @
                          [\<lparr>j_sender = sender, j_id = i, j_callback = callback handler,
                            j_params = params req\<rparr>]\<rparr>))))"

text \<open>
  A batch: \<open>req.forEach(r => this.handleRPCRequest(sender, r))\<close>, which an exception ends,
  so that the envelopes after it are not handled.
\<close>

fun handleEach ::
  "resolver \<Rightarrow> number \<Rightarrow> behaviour \<Rightarrow> sendable \<Rightarrow> envelope list \<Rightarrow> engine \<Rightarrow>
     exn option \<times> engine" where
  "handleEach resolve D does sender [] s = (None, s)"
| "handleEach resolve D does sender (r # rest) s =
     (case handleOne resolve D does sender r s of
        (Some x, s') \<Rightarrow> (Some x, s')
      | (None, s') \<Rightarrow> handleEach resolve D does sender rest s')"

fun handleRPCRequest ::
  "resolver \<Rightarrow> number \<Rightarrow> behaviour \<Rightarrow> sendable \<Rightarrow> request \<Rightarrow> engine \<Rightarrow> exn option \<times> engine" where
  "handleRPCRequest resolve D does sender (One req) s = handleOne resolve D does sender req s"
| "handleRPCRequest resolve D does sender (Many reqs) s = handleEach resolve D does sender reqs s"

definition handleRequest ::
  "resolver \<Rightarrow> number \<Rightarrow> behaviour \<Rightarrow> sendable \<Rightarrow> request wiretext \<Rightarrow> engine \<Rightarrow>
     exn option \<times> engine" where
  "handleRequest resolve D does sender res s =
     (case beforeReceive res of
        Inl x \<Rightarrow> (Some x, s)
      | Inr r \<Rightarrow> handleRPCRequest resolve D does sender r s)"




section \<open>Notions used in the statements\<close>

text \<open>The ids handed out by successive runs of \<open>getId\<close>, one per clock reading.\<close>

fun issue :: "nat list \<Rightarrow> engine \<Rightarrow> string list" where
  "issue [] s = []"
| "issue (t # ts) s = (case getId (s\<lparr>clock := t\<rparr>) of (i, s') \<Rightarrow> i # issue ts s')"






text \<open>
  Transport bindings for the examples: one in which every endpoint is released; one in
  which a window handle and a positive webContents id resolve to the sendable of that
  number, the name \<open>main\<close> to sendable 0, and any other name makes the lookup throw; and
  one that differs from it in resolving the webContents id 0 as well.
\<close>

definition allReleased :: resolver where
  "allReleased t = Unresolved"

fun windows :: resolver where
  "windows (Handle n) = Resolved (Sendable n)"
| "windows (WebContentsId i) = (if 0 < i then Resolved (Sendable (nat i)) else Unresolved)"
| "windows (Named n) = (if n = ''main'' then Resolved (Sendable 0) else Throws)"

fun windowsFromZero :: resolver where
  "windowsFromZero (Handle n) = Resolved (Sendable n)"
| "windowsFromZero (WebContentsId i) = (if 0 \<le> i then Resolved (Sendable (nat i)) else Unresolved)"
| "windowsFromZero (Named n) = (if n = ''main'' then Resolved (Sendable 0) else Throws)"

text \<open>A behaviour in which no callback touches the engine.\<close>

definition idle :: behaviour where
  "idle cb ps sender_id = []"



section \<open>Target equality and released targets\<close>

lemma isTargetEqual_released:
  "getSender resolve t = None \<Longrightarrow> \<not> isTargetEqual resolve (Some t) b"
  "getSender resolve t = None \<Longrightarrow> \<not> isTargetEqual resolve a (Some t)"
  by (auto simp: isTargetEqual_def split: option.splits)

lemma findIndex_never [simp]: "findIndex (\<lambda>x. False) xs = None"
  by (induction xs) auto

lemma isTargetEqual_Some:
  "isTargetEqual r (Some a) (Some b) \<longleftrightarrow>
     (\<exists>sa sb. getSender r a = Some sa \<and> getSender r b = Some sb \<and> sid sa = sid sb)"
  by (auto simp: isTargetEqual_def split: option.splits)

lemma isTargetEqual_None [simp]:
  "isTargetEqual r (Some a) None = False" "isTargetEqual r None (Some a) = False"
  "isTargetEqual r None None = True"
  by (auto simp: isTargetEqual_def split: option.splits)

lemma lookup_simps:
  "obj k = Some v \<Longrightarrow> lookup obj k = Own v"
  "lookup obj k = Own v \<longleftrightarrow> obj k = Some v"
  "lookup obj k = Inherited \<longleftrightarrow> obj k = None \<and> k \<in> set inheritedKeys"
  "lookup obj k = Absent \<longleftrightarrow> obj k = None \<and> k \<notin> set inheritedKeys"
  by (auto simp: lookup_def split: option.splits)

text \<open>
  C10. When a target does not resolve, \<open>isTargetEqual\<close> is false for it against every
  other target, and against itself. So \<open>off\<close>, \<open>unregisterHandler\<close> and
  \<open>removeAllListener\<close> given such a target remove nothing: they leave the engine as it
  is, \<open>off\<close> and \<open>unregisterHandler\<close> returning \<open>false\<close>, or throwing their TypeError if
  the method names a member of \<open>Object.prototype\<close>. And \<open>registerHandler\<close> never reports
  a duplicate for such a target: it appends the entry (or throws that TypeError).
\<close>

theorem released_target_matches_nothing:
  assumes "getSender resolve t = None"
  shows "(\<forall>other. \<not> isTargetEqual resolve (Some t) (Some other) \<and>
                  \<not> isTargetEqual resolve (Some other) (Some t)) \<and>
         \<not> isTargetEqual resolve (Some t) (Some t) \<and>
         off resolve meth cb (Some t) s =
           (if lookup (listeners s) meth = Inherited then Inl TypeError else Inr (False, s)) \<and>
         unregisterHandler resolve meth (Some t) s =
           (if lookup (handlers s) meth = Inherited then Inl TypeError else Inr (False, s)) \<and>
         removeAllListener resolve (Some t) s = s \<and>
         registerHandler resolve meth h (Some t) s =
           (if lookup (handlers s) meth = Inherited then Inl TypeError
            else Inr (s\<lparr>handlers := (handlers s)(meth \<mapsto>
                       (case handlers s meth of None \<Rightarrow> [] | Some hs \<Rightarrow> hs) @
                       [\<lparr>target = Some t, callback = h\<rparr>])\<rparr>))"
proof -
  have eq: "\<And>x. isTargetEqual resolve (Some t) x = False" "\<And>x. isTargetEqual resolve x (Some t) = False"
    using assms by (simp_all add: isTargetEqual_released)
  have "off resolve meth cb (Some t) s =
           (if lookup (listeners s) meth = Inherited then Inl TypeError else Inr (False, s))"
    by (simp add: off_def eq split: slot.splits)
  moreover have "unregisterHandler resolve meth (Some t) s =
           (if lookup (handlers s) meth = Inherited then Inl TypeError else Inr (False, s))"
    by (simp add: unregisterHandler_def eq split: slot.splits)
  moreover have "removeAllListener resolve (Some t) s = s"
  proof -
    have "(\<lambda>meth. case listeners s meth of
                   None \<Rightarrow> None
                 | Some l \<Rightarrow>
                     (let list = filter (\<lambda>i. \<not> isTargetEqual resolve (Some t) (target i)) l
                      in if length l \<noteq> length list then Some list else Some l)) = listeners s"
      by (rule ext) (simp add: eq split: option.splits)
    then show ?thesis by (simp add: removeAllListener_def)
  qed
  moreover have "registerHandler resolve meth h (Some t) s =
           (if lookup (handlers s) meth = Inherited then Inl TypeError
            else Inr (s\<lparr>handlers := (handlers s)(meth \<mapsto>
                       (case handlers s meth of None \<Rightarrow> [] | Some hs \<Rightarrow> hs) @
                       [\<lparr>target = Some t, callback = h\<rparr>])\<rparr>))"
    by (auto simp: registerHandler_def eq list_ex_iff lookup_simps split: slot.splits)
  ultimately show ?thesis by (simp add: eq)
qed

theorem released_target_matches_nothing_witness:
  "getSender allReleased (Handle 1) = None \<and>
   \<not> isTargetEqual allReleased (Some (Handle 1)) (Some (Handle 1)) \<and>
   off allReleased ''e'' 7 (Some (Handle 1))
     (init\<lparr>listeners := [''e'' \<mapsto> [\<lparr>target = Some (Handle 1), callback = 7\<rparr>]]\<rparr>) =
     Inr (False, init\<lparr>listeners := [''e'' \<mapsto> [\<lparr>target = Some (Handle 1), callback = 7\<rparr>]]\<rparr>) \<and>
   registerHandler allReleased ''m'' 2 (Some (Handle 1))
     (init\<lparr>handlers := [''m'' \<mapsto> [\<lparr>target = Some (Handle 1), callback = 1\<rparr>]]\<rparr>) =
     Inr (init\<lparr>handlers := [''m'' \<mapsto> [\<lparr>target = Some (Handle 1), callback = 1\<rparr>,
                                          \<lparr>target = Some (Handle 1), callback = 2\<rparr>]]\<rparr>)"
proof -
  have h: "getSender allReleased (Handle 1) = None" by (simp add: getSender_def allReleased_def)
  show ?thesis
    using h
      released_target_matches_nothing [OF h, where meth = "''e''" and cb = 7 and h = 2
        and s = "init\<lparr>listeners := [''e'' \<mapsto> [\<lparr>target = Some (Handle 1), callback = 7\<rparr>]]\<rparr>"]
      released_target_matches_nothing [OF h, where meth = "''m''" and cb = 7 and h = 2
        and s = "init\<lparr>handlers := [''m'' \<mapsto> [\<lparr>target = Some (Handle 1), callback = 1\<rparr>]]\<rparr>"]
    by (simp add: lookup_def)
qed

section \<open>Handler registry\<close>

text \<open>
  What \<open>registerHandler\<close> does for a method that has a list of its own: it throws for a
  second global handler, and for a scoped handler whose target is truthy and whose
  resolved identity is that of an entry already there; two targets of distinct resolved
  identities can both be registered; a registration that throws leaves the engine as it
  was.
\<close>

lemma registerHandler_conflicts:
  "(handlers s meth = Some hs \<and> list_ex (\<lambda>i. target i = None) hs \<longrightarrow>
      registerHandler resolve meth h None s = Inl (AlreadyRegistered meth None)) \<and>
   (truthy t \<and> handlers s meth = Some hs \<and> getSender resolve t = Some sd \<and>
    list_ex (\<lambda>i. case target i of None \<Rightarrow> False
                  | Some t' \<Rightarrow> (case getSender resolve t' of None \<Rightarrow> False
                                | Some sd' \<Rightarrow> sid sd' = sid sd)) hs \<longrightarrow>
      registerHandler resolve meth h (Some t) s = Inl (AlreadyRegistered meth (Some t))) \<and>
   (getSender resolve a = Some sa \<and> getSender resolve b = Some sb \<and> sid sa \<noteq> sid sb \<and>
    registerHandler resolve meth h1 (Some a) s = Inr s1 \<and>
    registerHandler resolve meth h2 (Some b) s = Inr s2 \<longrightarrow>
      registerHandler resolve meth h2 (Some b) s1 =
        Inr (s\<lparr>handlers := (handlers s)(meth \<mapsto>
               (case handlers s meth of None \<Rightarrow> [] | Some hs \<Rightarrow> hs) @
               [\<lparr>target = Some a, callback = h1\<rparr>, \<lparr>target = Some b, callback = h2\<rparr>])\<rparr>)) \<and>
   (registerHandler resolve meth h tgt s = Inl x \<longrightarrow>
      invoke resolve D (RegisterHandler meth h tgt) s = (Some x, s))"
proof (intro conjI impI)
  assume "handlers s meth = Some hs \<and> list_ex (\<lambda>i. target i = None) hs"
  then show "registerHandler resolve meth h None s = Inl (AlreadyRegistered meth None)"
    by (simp add: registerHandler_def lookup_simps(1))
next
  assume a: "truthy t \<and> handlers s meth = Some hs \<and> getSender resolve t = Some sd \<and>
    list_ex (\<lambda>i. case target i of None \<Rightarrow> False
                  | Some t' \<Rightarrow> (case getSender resolve t' of None \<Rightarrow> False
                                | Some sd' \<Rightarrow> sid sd' = sid sd)) hs"
  have "isTargetEqual resolve (Some t) tg"
    if "getSender resolve t = Some sd"
       "case tg of None \<Rightarrow> False
        | Some t' \<Rightarrow> (case getSender resolve t' of None \<Rightarrow> False | Some sd' \<Rightarrow> sid sd' = sid sd)"
    for tg
    using that by (cases tg) (auto simp: isTargetEqual_Some split: option.splits)
  with a have "list_ex (\<lambda>i. isTargetEqual resolve (Some t) (target i)) hs"
    unfolding list_ex_iff by blast
  with a show "registerHandler resolve meth h (Some t) s = Inl (AlreadyRegistered meth (Some t))"
    by (simp add: registerHandler_def lookup_simps(1))
next
  assume a: "getSender resolve a = Some sa \<and> getSender resolve b = Some sb \<and> sid sa \<noteq> sid sb \<and>
    registerHandler resolve meth h1 (Some a) s = Inr s1 \<and>
    registerHandler resolve meth h2 (Some b) s = Inr s2"
  then have ne: "\<not> isTargetEqual resolve (Some b) (Some a)"
    by (auto simp: isTargetEqual_Some)
  from a have s1: "s1 = s\<lparr>handlers := (handlers s)(meth \<mapsto>
               (case handlers s meth of None \<Rightarrow> [] | Some hs \<Rightarrow> hs) @
               [\<lparr>target = Some a, callback = h1\<rparr>])\<rparr>"
    by (auto simp: registerHandler_def lookup_simps split: if_splits slot.splits)
  from a have ok: "\<not> (truthy b \<and> (case handlers s meth of None \<Rightarrow> False
               | Some hs \<Rightarrow> list_ex (\<lambda>i. isTargetEqual resolve (Some b) (target i)) hs))"
    by (auto simp: registerHandler_def lookup_simps split: if_splits slot.splits)
  show "registerHandler resolve meth h2 (Some b) s1 =
        Inr (s\<lparr>handlers := (handlers s)(meth \<mapsto>
               (case handlers s meth of None \<Rightarrow> [] | Some hs \<Rightarrow> hs) @
               [\<lparr>target = Some a, callback = h1\<rparr>, \<lparr>target = Some b, callback = h2\<rparr>])\<rparr>)"
    using ok ne by (auto simp: s1 registerHandler_def lookup_def split: option.splits)
next
  assume "registerHandler resolve meth h tgt s = Inl x"
  then show "invoke resolve D (RegisterHandler meth h tgt) s = (Some x, s)"
    by simp
qed

text \<open>
  C6 fails in two ways. The second check is guarded by \<open>target && ...\<close>, so for a target
  that is not \<open>null\<close> but falsy, the webContents id 0, it is skipped: where that id
  resolves, a second handler is registered for the same method and the same resolved
  identity, while for the id 5 the same registration throws. And for a method that names
  a member of \<open>Object.prototype\<close> nothing can be registered at all: \<open>this.handlers[method]\<close>
  is then the inherited function, on which \<open>some\<close> is called.
\<close>

theorem second_handler_for_one_identity:
  "isTargetEqual windowsFromZero (Some (WebContentsId 0)) (Some (WebContentsId 0)) \<and>
   registerHandler windowsFromZero ''m'' 2 (Some (WebContentsId 0))
     (init\<lparr>handlers := [''m'' \<mapsto> [\<lparr>target = Some (WebContentsId 0), callback = 1\<rparr>]]\<rparr>) =
     Inr (init\<lparr>handlers := [''m'' \<mapsto> [\<lparr>target = Some (WebContentsId 0), callback = 1\<rparr>,
                                          \<lparr>target = Some (WebContentsId 0), callback = 2\<rparr>]]\<rparr>) \<and>
   registerHandler windowsFromZero ''m'' 2 (Some (WebContentsId 5))
     (init\<lparr>handlers := [''m'' \<mapsto> [\<lparr>target = Some (WebContentsId 5), callback = 1\<rparr>]]\<rparr>) =
     Inl (AlreadyRegistered ''m'' (Some (WebContentsId 5))) \<and>
   registerHandler windows ''constructor'' 1 None init = Inl TypeError \<and>
   registerHandler windows ''constructor'' 1 (Some (Handle 5)) init = Inl TypeError"
  by (simp add: registerHandler_def lookup_def inheritedKeys_def init_def isTargetEqual_def
        getSender_def)

section \<open>Dispatch of requests\<close>

lemma scanHandlers_char:
  "scanHandlers r sd hs acc =
     (case find (\<lambda>i. target i \<noteq> None \<and> isSenderMatchTarget r sd (target i)) hs of
        Some e \<Rightarrow> Some e
      | None \<Rightarrow> (case filter (\<lambda>i. target i = None) hs of [] \<Rightarrow> acc | g # gs \<Rightarrow> Some (last (g # gs))))"
  by (induction hs arbitrary: acc) (auto split: option.splits list.splits)

lemma serializable_NotFound [simp]:
  "stringify (Res (Failure i \<lparr>w_code = c, w_message = m, w_data = JUndefined\<rparr>)) =
     Inr (Json (Res (Failure i \<lparr>w_code = c, w_message = m, w_data = JUndefined\<rparr>)))"
  by (simp add: stringify_def)

text \<open>
  What dispatch does for a method that does not name a member of \<open>Object.prototype\<close>.
  \<open>getHandlerFor\<close> returns the first scoped entry, in registration order, whose target
  resolves to the identity of the sender; if there is none, the global entry (the last
  one scanned) if there is one; otherwise nothing, and then the request is answered to
  the sender with a \<open>NotFound\<close> error that carries the request's id. An entry that is
  returned has its callback invoked with the params and the sender's id.
\<close>

lemma handler_dispatch_order:
  assumes "lookup (handlers s) meth \<noteq> Inherited"
  shows "getHandlerFor resolve meth sender s =
     Inr (case find (\<lambda>i. target i \<noteq> None \<and> isSenderMatchTarget resolve sender (target i))
             (case handlers s meth of None \<Rightarrow> [] | Some hs \<Rightarrow> hs) of
        Some e \<Rightarrow> Some e
      | None \<Rightarrow>
          (case filter (\<lambda>i. target i = None) (case handlers s meth of None \<Rightarrow> [] | Some hs \<Rightarrow> hs) of
             [] \<Rightarrow> None
           | g # gs \<Rightarrow> Some (last (g # gs))))"
    and "isSenderMatchTarget resolve sender tgt \<longleftrightarrow>
      tgt = None \<or> (\<exists>t sd. tgt = Some t \<and> getSender resolve t = Some sd \<and> sid sd = sid sender)"
    and "req_id req = Some i \<Longrightarrow> getHandlerFor resolve (rpc_method req) sender s = Inr None \<Longrightarrow>
      handleOne resolve D does sender req s =
        (None, s\<lparr>wire := wire s @
             [(sid sender, RPC_RECEIVE_CHANNEL,
               Json (Res (Failure i \<lparr>w_code = NotFound,
                                     w_message = ''method '' @ rpc_method req @ '' not found'',
                                     w_data = JUndefined\<rparr>)))]\<rparr>)"
    and "req_id req = Some i \<Longrightarrow> getHandlerFor resolve (rpc_method req) sender s = Inr (Some e) \<Longrightarrow>
      handleOne resolve D does sender req s =
        (case runCallback resolve D does (callback e) (params req) (sid sender) s of
           (Some x, s') \<Rightarrow> (Some x, s')
         | (None, s') \<Rightarrow>
             (None, s'\<lparr>jobs := jobs s' @ [\<lparr>j_sender = sender, j_id = i, j_callback = callback e,
                                           j_params = params req\<rparr>]\<rparr>))"
  using assms
  by (auto simp: getHandlerFor_def scanHandlers_char handleOne_def beforeSend_def
        isSenderMatchTarget_def lookup_def split: option.splits list.splits if_splits)

text \<open>
  C5 fails for a request whose method names a member of \<open>Object.prototype\<close> and has no
  handler. The value read from \<open>this.handlers\<close> is the inherited function, which passes
  the test \<open>== null\<close>; the \<open>for ... of\<close> over it throws, the exception leaves
  \<open>handleRequest\<close>, and nothing is sent back, whereas a request for another method without
  handler gets its \<open>NotFound\<close> response.
\<close>

theorem inherited_method_name_gets_no_reply:
  "handleRequest windows (Finite 300000) idle (Sendable 5)
     (Json (One \<lparr>jsonrpc = ''2.0'', rpc_method = ''constructor'', req_id = Some ''7'',
                  params = JNull\<rparr>)) init = (Some TypeError, init) \<and>
   handleRequest windows (Finite 300000) idle (Sendable 5)
     (Json (One \<lparr>jsonrpc = ''2.0'', rpc_method = ''x'', req_id = Some ''7'',
                  params = JNull\<rparr>)) init =
     (None, init\<lparr>wire := [(5, RPC_RECEIVE_CHANNEL,
        Json (Res (Failure ''7'' \<lparr>w_code = NotFound, w_message = ''method x not found'',
                                   w_data = JUndefined\<rparr>)))]\<rparr>)"
  by (simp add: handleRequest_def beforeReceive_def handleOne_def getHandlerFor_def lookup_def
        inheritedKeys_def init_def beforeSend_def)

section \<open>What the send path leaves alone\<close>

lemma beforeSend_frame [simp]:
  "uid (beforeSend sd ch p s) = uid s"
  "queueTick (beforeSend sd ch p s) = queueTick s"
  "scheduleQueue (beforeSend sd ch p s) = scheduleQueue s"
  "responder (beforeSend sd ch p s) = responder s"
  "handlers (beforeSend sd ch p s) = handlers s"
  "listeners (beforeSend sd ch p s) = listeners s"
  "calls (beforeSend sd ch p s) = calls s"
  "ncalls (beforeSend sd ch p s) = ncalls s"
  "armed (beforeSend sd ch p s) = armed s"
  "clock (beforeSend sd ch p s) = clock s"
  "flushTimers (beforeSend sd ch p s) = flushTimers s"
  "jobs (beforeSend sd ch p s) = jobs s"
  "settled (beforeSend sd ch p s) = settled s"
  "delivered (beforeSend sd ch p s) = delivered s"
  by (simp_all add: beforeSend_def split: sum.splits)

lemma scheduleRequest_frame [simp]:
  "uid (scheduleRequest ch sd p s) = uid s"
  "responder (scheduleRequest ch sd p s) = responder s"
  "handlers (scheduleRequest ch sd p s) = handlers s"
  "listeners (scheduleRequest ch sd p s) = listeners s"
  "calls (scheduleRequest ch sd p s) = calls s"
  "ncalls (scheduleRequest ch sd p s) = ncalls s"
  "armed (scheduleRequest ch sd p s) = armed s"
  "clock (scheduleRequest ch sd p s) = clock s"
  "jobs (scheduleRequest ch sd p s) = jobs s"
  "settled (scheduleRequest ch sd p s) = settled s"
  "delivered (scheduleRequest ch sd p s) = delivered s"
  by (simp_all add: scheduleRequest_def Let_def)

section \<open>Dispatch of events\<close>

lemma delivered_invoke [simp]: "delivered (snd (invoke r D a s)) = delivered s"
  by (cases a)
     (simp_all add: on_def off_def removeAllListener_def emit_def callHandler_def send_def
        getId_def track_def rejectReleased_def registerHandler_def unregisterHandler_def Let_def
        split: option.splits sum.splits prod.splits slot.splits)

lemma delivered_runActions [simp]: "delivered (snd (runActions r D as s)) = delivered s"
proof (induction as arbitrary: s)
  case Nil
  then show ?case by simp
next
  case (Cons a as)
  show ?case
  proof (cases a)
    case (Call x)
    obtain e s' where i: "invoke r D x s = (e, s')" by (cases "invoke r D x s")
    from delivered_invoke [of r D x s] i have d: "delivered s' = delivered s" by simp
    from i d Cons.IH [of s'] show ?thesis by (cases e) (simp_all add: Call)
  next
    case (Guarded x)
    with Cons.IH [of "snd (invoke r D x s)"] show ?thesis by simp
  next
    case Throw
    then show ?thesis by simp
  qed
qed







section \<open>Calls to released targets\<close>

text \<open>
  C2, as amended. A call whose target does not resolve (\<open>getSendable\<close> returns nothing or
  throws) returns \<open>false\<close> after invoking its callback with a \<open>TargetReleased\<close> error.
  No timer is armed, no responder entry is made and nothing is queued or sent: the
  engine differs only in the log of the callback and in \<open>uid\<close>, which \<open>getId\<close> has
  advanced before the target was resolved.
\<close>

theorem unresolved_call_rejected_at_once:
  assumes "resolve tgt = Unresolved \<or> resolve tgt = Throws"
  shows "send resolve D tgt meth ps (Some cb) timeout s =
           (False,
            s\<lparr>uid := (uid s + 1) mod MAX_SAFE_INTEGER,
              ncalls := ncalls s + 1,
              settled := settled s @
                [(ncalls s, Error \<lparr>e_code = TargetReleased, e_message = ReleasedTarget tgt,
                                   e_data = JUndefined, e_methodName = None, e_args = None\<rparr>)]\<rparr>)"
  using assms by (auto simp: send_def getSender_def getId_def rejectReleased_def Let_def)

theorem unresolved_call_rejected_at_once_witness:
  "(windows (Named ''gone'') = Unresolved \<or> windows (Named ''gone'') = Throws) \<and>
   send windows (Finite 300000) (Named ''gone'') ''m'' JNull (Some 0) None init =
     (False,
      init\<lparr>uid := 1, ncalls := 1,
           settled := [(0, Error \<lparr>e_code = TargetReleased, e_message = ReleasedTarget (Named ''gone''),
                                   e_data = JUndefined, e_methodName = None, e_args = None\<rparr>)]\<rparr>)"
  using unresolved_call_rejected_at_once [of windows "Named ''gone''" "Finite 300000" "''m''" JNull 0 None init]
  by (simp add: init_def MAX_SAFE_INTEGER_def)

text \<open>
  C2 as stated fails: the id counter is not left unchanged by a call to a released
  target.
\<close>

theorem unresolved_call_advances_uid:
  "uid (snd (send allReleased (Finite 300000) (Handle 1) ''m'' JNull (Some 0) None init)) \<noteq> uid init"
  by (simp add: send_def getSender_def allReleased_def getId_def rejectReleased_def Let_def
        init_def MAX_SAFE_INTEGER_def)

section \<open>Codec failures\<close>

lemma malformed_inbound_throws:
  "handleResponse (Garbage t) s = Inl SyntaxError"
  "handleRequest resolve D does sender (Garbage t) s = (Some SyntaxError, s)"
  by (simp_all add: handleResponse_def handleRequest_def beforeReceive_def)

lemma unserializable_outbound_dropped:
  "\<not> serializable_payload p \<Longrightarrow>
     beforeSend sender chan p s = s\<lparr>console := console s @ [SerializeFailed TypeError]\<rparr>"
  by (simp add: beforeSend_def stringify_def)

text \<open>
  C8. On the send path a payload that does not serialize is logged and dropped. On the
  receive path \<open>beforeReceive\<close> is a bare \<open>JSON.parse\<close>: for \<open>handleResponse\<close> and
  \<open>handleRequest\<close> given the malformed text \<open>{\<close> the SyntaxError leaves the function.
\<close>

theorem malformed_response_escapes:
  "handleResponse (Garbage ''{'') init = Inl SyntaxError \<and>
   handleRequest windows (Finite 300000) idle (Sendable 5) (Garbage ''{'') init =
     (Some SyntaxError, init) \<and>
   beforeSend (Sendable 5) RPC_SEND_CHANNEL
     (Req (One \<lparr>jsonrpc = ''2.0'', rpc_method = ''m'', req_id = None, params = JCircular\<rparr>)) init
     = init\<lparr>console := [SerializeFailed TypeError]\<rparr>"
  by (simp add: malformed_inbound_throws unserializable_outbound_dropped init_def)

section \<open>Settlement of calls\<close>

lemma digits_small: "digits 0 = ''0''" "digits 1 = ''1''" "digits (Suc 0) = ''1''"
  by code_simp+

text \<open>
  C1 fails on the response path. A response whose id names a member of
  \<open>Object.prototype\<close> has no entry, yet \<open>this.responder[id]\<close> is the inherited function and
  not \<open>null\<close>: nothing is logged, and calling its \<open>callback\<close> throws a TypeError out of
  \<open>handleResponse\<close>, where a response with another unknown id is logged and dropped.
  And an error response that matches a pending call whose arguments do not serialize
  makes \<open>recoverFromResponse\<close> throw before the callback is invoked: the exception
  leaves \<open>handleResponse\<close> and the call is not settled.
\<close>

theorem response_path_throws:
  "handleResponse (Json (Success ''constructor'' JNull)) init = Inl TypeError \<and>
   handleResponse (Json (Success ''17'' JNull)) init =
     Inr (init\<lparr>console := [NoResponder ''17'']\<rparr>) \<and>
   responder (callHandler windows (Finite 300000) (Handle 5) ''m'' JCircular None init) ''10'' =
     Some \<lparr>r_callback = 0, r_name = ''m'', r_args = JCircular\<rparr> \<and>
   handleResponse
     (Json (Failure ''10'' \<lparr>w_code = App 42, w_message = ''no'', w_data = JNull\<rparr>))
     (callHandler windows (Finite 300000) (Handle 5) ''m'' JCircular None init) = Inl TypeError"
  by (simp add: handleResponse_def beforeReceive_def handleRPCResponse_def lookup_def
        inheritedKeys_def init_def callHandler_def send_def getId_def getSender_def track_def
        MAX_SAFE_INTEGER_def digits_small recoverFromResponse_def Let_def)

section \<open>The timeout timer\<close>

text \<open>
  A call to a target that resolves arms a timer for the new closure exactly when the
  effective timeout \<open>timeout || DEFAULT_TIMEOUT\<close> is positive and finite.
\<close>

lemma send_arms_timer:
  assumes "getSender resolve tgt = Some sd"
  shows "armed (snd (send resolve D tgt meth ps (Some cb) timeout s)) (ncalls s) =
           (if timeoutEnabled (orDefault timeout D) then Some (orDefault timeout D)
            else armed s (ncalls s))"
  using assms by (simp add: send_def getId_def track_def Let_def)

text \<open>
  C3 fails for the timeout 0. The test \<open>_timeout > 0\<close> is there to disable expiry, and
  does for a negative timeout and for \<open>Infinity\<close>; but 0 is falsy, so \<open>timeout ||
  DEFAULT_TIMEOUT\<close> has replaced it by the default before the test. The timer is armed
  with the default delay, and when it fires the call is rejected with \<open>Timeout\<close>.
\<close>

theorem timeout_zero_still_expires:
  "armed (callHandler windows (Finite 300000) (Handle 5) ''m'' JNull (Some (Finite 0)) init) 0 =
     Some (Finite 300000) \<and>
   settled (timerFires 0
     (callHandler windows (Finite 300000) (Handle 5) ''m'' JNull (Some (Finite 0)) init)) =
     [(0, Error \<lparr>e_code = Timeout, e_message = CallTimedOut ''m'', e_data = JUndefined,
                 e_methodName = None, e_args = None\<rparr>)] \<and>
   armed (callHandler windows (Finite 300000) (Handle 5) ''m'' JNull (Some (Finite (- 5))) init) 0 =
     None \<and>
   armed (callHandler windows (Finite 300000) (Handle 5) ''m'' JNull (Some Infinity) init) 0 =
     None"
  by (simp add: callHandler_def send_def getId_def init_def track_def timerFires_def
        timerCallback_def getSender_def MAX_SAFE_INTEGER_def digits_small Let_def orDefault_def)

section \<open>Uniqueness of request ids\<close>

lemma digits_nonempty: "digits n \<noteq> []"
  by (subst digits.simps) simp

lemma digits_length_pos: "0 < length (digits n)"
  using digits_nonempty [of n] by simp

lemma digits_length_small: "length (digits n) = Suc 0 \<longleftrightarrow> n < 10"
proof (cases "n < 10")
  case True
  then show ?thesis by (subst digits.simps) simp
next
  case False
  have "digits (n div 10) \<noteq> []" by (rule digits_nonempty)
  then have "length (digits (n div 10)) \<noteq> 0" by simp
  with False show ?thesis by (subst digits.simps) simp
qed

lemma digit_char_inject:
  assumes "char_of (48 + a) = char_of (48 + b)" "a < 10" "b < 10"
  shows "a = (b::nat)"
proof -
  from assms(1) have "(of_char (char_of (48 + a)) :: nat) = of_char (char_of (48 + b))"
    by (rule arg_cong)
  with assms(2,3) show ?thesis by simp
qed

lemma digits_inject: "digits a = digits b \<Longrightarrow> a = b"
proof (induction a arbitrary: b rule: digits.induct)
  case (1 n)
  show ?case
  proof (cases "n < 10")
    case True
    then have dn: "digits n = [char_of (48 + n)]" by (subst digits.simps) simp
    from "1.prems" have "length (digits b) = length (digits n)" by simp
    with dn have b: "b < 10" by (simp add: digits_length_small)
    then have "digits b = [char_of (48 + b)]" by (subst digits.simps) simp
    with dn "1.prems" have "char_of (48 + n) = char_of (48 + b)" by simp
    then show ?thesis using True b by (rule digit_char_inject)
  next
    case False
    then have dn: "digits n = digits (n div 10) @ [char_of (48 + n mod 10)]"
      by (subst digits.simps) simp
    have "length (digits n) \<noteq> Suc 0" using False by (simp add: digits_length_small)
    with "1.prems" have b: "\<not> b < 10" by (simp add: digits_length_small)
    then have db: "digits b = digits (b div 10) @ [char_of (48 + b mod 10)]"
      by (subst digits.simps) simp
    from dn db "1.prems" have e1: "digits (n div 10) = digits (b div 10)"
      and e2: "char_of (48 + n mod 10) = char_of (48 + b mod 10)" by simp_all
    from "1.IH" [OF False e1] have d: "n div 10 = b div 10" .
    from e2 have m: "n mod 10 = b mod 10" by (rule digit_char_inject) simp_all
    have "n = 10 * (n div 10) + n mod 10" by simp
    also have "\<dots> = 10 * (b div 10) + b mod 10" by (simp only: d m)
    also have "\<dots> = b" by simp
    finally show ?thesis .
  qed
qed

lemma digits_length_mono: "a \<le> b \<Longrightarrow> length (digits a) \<le> length (digits b)"
proof (induction a arbitrary: b rule: digits.induct)
  case (1 n)
  show ?case
  proof (cases "n < 10")
    case True
    then have "length (digits n) = Suc 0" by (simp add: digits_length_small)
    with digits_length_pos [of b] show ?thesis by (simp only: Suc_leI)
  next
    case False
    with "1.prems" have b: "\<not> b < 10" by simp
    from "1.prems" have "n div 10 \<le> b div 10" by (rule div_le_mono)
    from "1.IH" [OF False this] have "length (digits (n div 10)) \<le> length (digits (b div 10))" .
    moreover have "digits n = digits (n div 10) @ [char_of (48 + n mod 10)]"
      using False by (subst digits.simps) simp
    moreover have "digits b = digits (b div 10) @ [char_of (48 + b mod 10)]"
      using b by (subst digits.simps) simp
    ultimately show ?thesis by simp
  qed
qed

lemma mod_shift_neq:
  assumes "1 \<le> i" "i < (m::nat)"
  shows "(a + 1) mod m \<noteq> (a + 1 + i) mod m"
proof
  assume "(a + 1) mod m = (a + 1 + i) mod m"
  then have e: "(a + 1 + i) mod m = (a + 1) mod m" by simp
  have l: "a + 1 \<le> a + 1 + i" by simp
  from e l obtain s where "a + 1 + i = a + 1 + m * s" by (rule mod_eq_nat1E)
  then have i: "i = m * s" by simp
  show False
  proof (cases s)
    case 0
    with i assms(1) show False by simp
  next
    case (Suc s')
    with i have "m \<le> i" by simp
    with assms(2) show False by simp
  qed
qed


lemma issue_Cons:
  "issue (t # ts) s =
     (digits ((uid s + 1) mod MAX_SAFE_INTEGER) @ digits t) #
     issue ts (s\<lparr>clock := t, uid := (uid s + 1) mod MAX_SAFE_INTEGER\<rparr>)"
  by (simp add: getId_def Let_def)

lemma issue_set:
  "x \<in> set (issue ts s) \<Longrightarrow>
     \<exists>i t. 1 \<le> i \<and> i \<le> length ts \<and> t \<in> set ts \<and>
           x = digits ((uid s + i) mod MAX_SAFE_INTEGER) @ digits t"
proof (induction ts arbitrary: s)
  case Nil
  then show ?case by simp
next
  case (Cons t ts)
  let ?s1 = "s\<lparr>clock := t, uid := (uid s + 1) mod MAX_SAFE_INTEGER\<rparr>"
  from Cons.prems consider
    "x = digits ((uid s + 1) mod MAX_SAFE_INTEGER) @ digits t" | "x \<in> set (issue ts ?s1)"
    unfolding issue_Cons by auto
  then show ?case
  proof cases
    case 1
    then show ?thesis by (intro exI [of _ 1] exI [of _ t]) simp
  next
    case 2
    from Cons.IH [OF 2] obtain i t' where
      i: "1 \<le> i" "i \<le> length ts" "t' \<in> set ts"
         "x = digits ((uid ?s1 + i) mod MAX_SAFE_INTEGER) @ digits t'" by blast
    have "(uid ?s1 + i) mod MAX_SAFE_INTEGER = (uid s + Suc i) mod MAX_SAFE_INTEGER"
      by (simp add: mod_add_left_eq)
    with i show ?thesis by (intro exI [of _ "Suc i"] exI [of _ t']) simp
  qed
qed

text \<open>
  What does hold: the ids of at most \<open>MAX_SAFE_INTEGER\<close> successive runs of \<open>getId\<close> are
  pairwise distinct if the clock readings all have the same number of decimal digits,
  or if the clock never goes back and the counter does not wrap during these runs.
\<close>

lemma ids_distinct_while_clock_behaves:
  assumes "length ts \<le> MAX_SAFE_INTEGER"
    and "(\<forall>t\<in>set ts. length (digits t) = w) \<or>
         (sorted ts \<and> uid s + length ts < MAX_SAFE_INTEGER)"
  shows "distinct (issue ts s)"
  using assms
proof (induction ts arbitrary: s)
  case Nil
  then show ?case by simp
next
  case (Cons t ts)
  let ?M = MAX_SAFE_INTEGER
  let ?s1 = "s\<lparr>clock := t, uid := (uid s + 1) mod ?M\<rparr>"
  let ?id0 = "digits ((uid s + 1) mod ?M) @ digits t"
  have len: "length ts \<le> ?M" "length ts < ?M" using Cons.prems(1) by simp_all
  have tail: "(\<forall>t\<in>set ts. length (digits t) = w) \<or> (sorted ts \<and> uid ?s1 + length ts < ?M)"
  proof (cases "\<forall>t\<in>set (t # ts). length (digits t) = w")
    case True
    then show ?thesis by simp
  next
    case False
    with Cons.prems(2) have m: "sorted (t # ts)" "uid s + length (t # ts) < ?M" by blast+
    then have "(uid s + 1) mod ?M = uid s + 1" by simp
    with m show ?thesis by simp
  qed
  have d: "distinct (issue ts ?s1)" by (rule Cons.IH [OF len(1) tail])
  have "?id0 \<notin> set (issue ts ?s1)"
  proof
    assume "?id0 \<in> set (issue ts ?s1)"
    from issue_set [OF this] obtain i t' where
      i: "1 \<le> i" "i \<le> length ts" "t' \<in> set ts"
         "?id0 = digits ((uid ?s1 + i) mod ?M) @ digits t'" by blast
    have u: "(uid ?s1 + i) mod ?M = (uid s + 1 + i) mod ?M"
      by (simp add: mod_add_left_eq)
    from i(4) u have eq: "?id0 = digits ((uid s + 1 + i) mod ?M) @ digits t'" by simp
    from i(2) len(2) have iM: "i < ?M" by simp
    show False
    proof (cases "\<forall>t\<in>set (t # ts). length (digits t) = w")
      case True
      with i(3) have "length (digits t) = length (digits t')" by simp
      with eq have "digits ((uid s + 1) mod ?M) = digits ((uid s + 1 + i) mod ?M)"
        by simp
      then have "(uid s + 1) mod ?M = (uid s + 1 + i) mod ?M" by (rule digits_inject)
      with mod_shift_neq [OF i(1) iM] show False by blast
    next
      case False
      with Cons.prems(2) have m: "sorted (t # ts)" "uid s + length (t # ts) < ?M" by blast+
      with i(2) have u0: "(uid s + 1) mod ?M = uid s + 1"
        and u1: "(uid s + 1 + i) mod ?M = uid s + 1 + i" by simp_all
      from m(1) i(3) have "t \<le> t'" by simp
      then have l1: "length (digits t) \<le> length (digits t')" by (rule digits_length_mono)
      have l2: "length (digits (uid s + 1)) \<le> length (digits (uid s + 1 + i))"
        by (rule digits_length_mono) simp
      from eq u0 u1 have e: "digits (uid s + 1) @ digits t = digits (uid s + 1 + i) @ digits t'"
        by simp
      then have "length (digits (uid s + 1)) + length (digits t) =
                 length (digits (uid s + 1 + i)) + length (digits t')"
        by (metis length_append)
      with l1 l2 have "length (digits t) = length (digits t')" by linarith
      with e have "digits (uid s + 1) = digits (uid s + 1 + i)" by simp
      then have "uid s + 1 = uid s + 1 + i" by (rule digits_inject)
      with i(1) show False by simp
    qed
  qed
  with d show ?case unfolding issue_Cons by simp
qed

text \<open>
  C7 fails: \<open>getId\<close>, documented as returning a unique id, concatenates the counter and
  the clock reading with nothing between them. The first of eleven successive calls, at
  clock reading 1700000000000, and the eleventh, at 700000000000 (the clock was set
  back), both get the id \<open>11700000000000\<close>.
\<close>

theorem ids_collide_when_clock_goes_back:
  "\<not> distinct (issue [1700000000000, 1700000000000, 1700000000000, 1700000000000,
                        1700000000000, 1700000000000, 1700000000000, 1700000000000,
                        1700000000000, 1700000000000, 700000000000] init)"
proof -
  have e: "digits 1 @ digits 1700000000000 = digits 11 @ digits 700000000000"
    by (simp add: digits.simps)
  have "issue [1700000000000, 1700000000000, 1700000000000, 1700000000000,
               1700000000000, 1700000000000, 1700000000000, 1700000000000,
               1700000000000, 1700000000000, 700000000000] init =
        [digits 1 @ digits 1700000000000, digits 2 @ digits 1700000000000,
         digits 3 @ digits 1700000000000, digits 4 @ digits 1700000000000,
         digits 5 @ digits 1700000000000, digits 6 @ digits 1700000000000,
         digits 7 @ digits 1700000000000, digits 8 @ digits 1700000000000,
         digits 9 @ digits 1700000000000, digits 10 @ digits 1700000000000,
         digits 11 @ digits 700000000000]"
    unfolding issue_Cons by (simp add: init_def MAX_SAFE_INTEGER_def numeral_2_eq_2 [symmetric])
  with e show ?thesis by simp
qed

section \<open>Batching of events\<close>












lemma scheduleQueue_flushLoop [simp]: "scheduleQueue (snd (flushLoop q s)) = scheduleQueue s"
  by (induction q s rule: flushLoop.induct) simp_all








end
